theory Spec2Isabelle
  imports
    Main
    "HOL-Library.AList"
    "HOL-Library.Char_ord"
    "HOL-Library.List_Lexorder"
    "HOL-Library.Product_Lexorder"
begin

section \<open>The patient queue of the clinic backend\<close>

text \<open>
  This theory embeds \<^verbatim>\<open>backend/app/services/queue_service.py\<close>: the class
  \<^verbatim>\<open>QueueService\<close>, which keeps a day's walk-up queue in a Redis store. Each method is
  a function that takes the instant at which it runs, the queue date and the store, and
  returns its result together with the store it leaves behind.
\<close>

subsection \<open>Python values: integers as text\<close>

text \<open>
  Redis stores text. The client writes an integer as \<^verbatim>\<open>str(n)\<close> and the service reads
  it back with \<^verbatim>\<open>int(s)\<close>, which raises \<^verbatim>\<open>ValueError\<close> on text that is no integer.
  \<open>py_int\<close> accepts an optional sign followed by one or more decimal digits; the
  surrounding white space and the underscores that Python also accepts never occur in
  text that \<open>py_str\<close> wrote.
\<close>

definition digit_char :: "nat \<Rightarrow> char" where
  "digit_char n = ''0123456789'' ! n"

fun str_nat :: "nat \<Rightarrow> string" where
  "str_nat n = (if n < 10 then [digit_char n] else str_nat (n div 10) @ [digit_char (n mod 10)])"

declare str_nat.simps [simp del]

definition py_str :: "int \<Rightarrow> string" where
  "py_str i = (if i < 0 then CHR ''-'' # str_nat (nat (- i)) else str_nat (nat i))"

definition is_digit :: "char \<Rightarrow> bool" where
  "is_digit c \<longleftrightarrow> 48 \<le> (of_char c :: nat) \<and> (of_char c :: nat) \<le> 57"

definition digit_val :: "char \<Rightarrow> nat" where
  "digit_val c = of_char c - 48"

definition parse_nat :: "string \<Rightarrow> nat option" where
  "parse_nat s =
     (if s \<noteq> [] \<and> list_all is_digit s
      then Some (foldl (\<lambda>a c. 10 * a + digit_val c) 0 s) else None)"

definition py_int :: "string \<Rightarrow> int option" where
  "py_int s =
     (case s of
        [] \<Rightarrow> None
      | c # r \<Rightarrow>
          if c = CHR ''-'' then map_option (\<lambda>n. - int n) (parse_nat r)
          else if c = CHR ''+'' then map_option int (parse_nat r)
          else map_option int (parse_nat s))"

text \<open>\<^verbatim>\<open>str(b)\<close> of a Boolean.\<close>

definition py_str_bool :: "bool \<Rightarrow> string" where
  "py_str_bool b = (if b then ''True'' else ''False'')"

subsection \<open>The clock\<close>

text \<open>
  An instant is a count of microseconds, the resolution of \<^verbatim>\<open>datetime.utcnow()\<close>. One
  clock serves the service and the store, and a method runs at one instant.
  \<^verbatim>\<open>datetime.isoformat()\<close> and \<^verbatim>\<open>datetime.timestamp()\<close> are library code: the
  service relies on the text being determined by the instant and never empty, and on the
  time stamp growing with the instant. Here the text is the decimal count and the time
  stamp is the count itself.
\<close>

type_synonym instant = nat

definition isoformat :: "instant \<Rightarrow> string" where
  "isoformat t = str_nat t"

definition timestamp :: "instant \<Rightarrow> nat" where
  "timestamp t = t"

definition seconds :: "nat \<Rightarrow> nat" where
  "seconds n = n * 1000000"

subsection \<open>The Redis store\<close>

text \<open>
  A key holds a value and, once \<^verbatim>\<open>EXPIRE\<close> has been called on it, the instant at which
  it expires; an expired key is absent to every command. The service uses four
  families of keys, \<^verbatim>\<open>queue:<date>\<close> (a sorted set), \<^verbatim>\<open>queue:token:<date>:<n>\<close>
  (a hash), \<^verbatim>\<open>queue:counter:<date>\<close> (an integer) and \<^verbatim>\<open>queue:current:<date>\<close>
  (text). The four formats never produce the same key, so each family is a map of its
  own, from the date (and the token number) instead of the formatted text.
\<close>

record date =
  year :: nat
  month :: nat
  day :: nat

definition zfill :: "nat \<Rightarrow> string \<Rightarrow> string" where
  "zfill w s = replicate (w - length s) CHR ''0'' @ s"

definition date_isoformat :: "date \<Rightarrow> string" where
  "date_isoformat d =
     zfill 4 (str_nat (year d)) @ ''-'' @ zfill 2 (str_nat (month d)) @ ''-'' @
     zfill 2 (str_nat (day d))"

type_synonym 'v entry = "'v \<times> instant option"

type_synonym hash = "(string \<times> string) list"

type_synonym zset = "(string \<times> nat) list"

record redis =
  counter_keys :: "date \<rightharpoonup> int entry"
  queue_keys :: "date \<rightharpoonup> zset entry"
  token_keys :: "date \<times> int \<rightharpoonup> hash entry"
  current_keys :: "date \<rightharpoonup> string entry"

definition empty_redis :: redis where
  "empty_redis =
     \<lparr>counter_keys = Map.empty, queue_keys = Map.empty,
      token_keys = Map.empty, current_keys = Map.empty\<rparr>"

definition live_ttl :: "instant \<Rightarrow> instant option \<Rightarrow> bool" where
  "live_ttl now e = (case e of None \<Rightarrow> True | Some t \<Rightarrow> now < t)"

definition lookup :: "instant \<Rightarrow> ('k \<rightharpoonup> 'v entry) \<Rightarrow> 'k \<Rightarrow> 'v option" where
  "lookup now ks k =
     (case ks k of
        None \<Rightarrow> None
      | Some (v, e) \<Rightarrow> if live_ttl now e then Some v else None)"

text \<open>A write to a live key keeps its expiry; a write to an absent key makes a key
  that does not expire.\<close>

definition keep_ttl :: "instant \<Rightarrow> ('k \<rightharpoonup> 'v entry) \<Rightarrow> 'k \<Rightarrow> instant option" where
  "keep_ttl now ks k =
     (case ks k of
        None \<Rightarrow> None
      | Some (v, e) \<Rightarrow> if live_ttl now e then e else None)"

definition redis_expire :: "instant \<Rightarrow> 'k \<Rightarrow> nat \<Rightarrow> ('k \<rightharpoonup> 'v entry) \<Rightarrow> ('k \<rightharpoonup> 'v entry)" where
  "redis_expire now k secs ks =
     (case lookup now ks k of
        None \<Rightarrow> ks
      | Some v \<Rightarrow> ks(k \<mapsto> (v, Some (now + seconds secs))))"

definition redis_incr :: "instant \<Rightarrow> 'k \<Rightarrow> ('k \<rightharpoonup> int entry) \<Rightarrow> int \<times> ('k \<rightharpoonup> int entry)" where
  "redis_incr now k ks =
     (let v = (case lookup now ks k of None \<Rightarrow> 0 | Some v \<Rightarrow> v) + 1
      in (v, ks(k \<mapsto> (v, keep_ttl now ks k))))"

definition redis_hgetall :: "instant \<Rightarrow> 'k \<Rightarrow> ('k \<rightharpoonup> hash entry) \<Rightarrow> hash" where
  "redis_hgetall now k ks = (case lookup now ks k of None \<Rightarrow> [] | Some h \<Rightarrow> h)"

definition redis_hset_mapping ::
  "instant \<Rightarrow> 'k \<Rightarrow> (string \<times> string) list \<Rightarrow> ('k \<rightharpoonup> hash entry) \<Rightarrow> ('k \<rightharpoonup> hash entry)" where
  "redis_hset_mapping now k kvs ks =
     ks(k \<mapsto> (fold (\<lambda>(f, v). AList.update f v) kvs (redis_hgetall now k ks),
              keep_ttl now ks k))"

definition redis_hset ::
  "instant \<Rightarrow> 'k \<Rightarrow> string \<Rightarrow> string \<Rightarrow> ('k \<rightharpoonup> hash entry) \<Rightarrow> ('k \<rightharpoonup> hash entry)" where
  "redis_hset now k f v ks = redis_hset_mapping now k [(f, v)] ks"

definition redis_exists :: "instant \<Rightarrow> 'k \<Rightarrow> ('k \<rightharpoonup> 'v entry) \<Rightarrow> bool" where
  "redis_exists now k ks \<longleftrightarrow> lookup now ks k \<noteq> None"

definition redis_zadd ::
  "instant \<Rightarrow> 'k \<Rightarrow> string \<Rightarrow> nat \<Rightarrow> ('k \<rightharpoonup> zset entry) \<Rightarrow> ('k \<rightharpoonup> zset entry)" where
  "redis_zadd now k member score ks =
     ks(k \<mapsto> (AList.update member score (case lookup now ks k of None \<Rightarrow> [] | Some z \<Rightarrow> z),
              keep_ttl now ks k))"

text \<open>\<^verbatim>\<open>ZRANGE key 0 -1\<close>: the members by ascending score, members of equal score in
  the byte order of their text.\<close>

definition zrange_all :: "zset \<Rightarrow> string list" where
  "zrange_all z = map fst (sort_key (\<lambda>(m, sc). (sc, m)) z)"

definition redis_zrange :: "instant \<Rightarrow> 'k \<Rightarrow> ('k \<rightharpoonup> zset entry) \<Rightarrow> string list" where
  "redis_zrange now k ks = (case lookup now ks k of None \<Rightarrow> [] | Some z \<Rightarrow> zrange_all z)"

definition redis_set_ex ::
  "instant \<Rightarrow> 'k \<Rightarrow> string \<Rightarrow> nat \<Rightarrow> ('k \<rightharpoonup> string entry) \<Rightarrow> ('k \<rightharpoonup> string entry)" where
  "redis_set_ex now k v secs ks = ks(k \<mapsto> (v, Some (now + seconds secs)))"

definition redis_get :: "instant \<Rightarrow> 'k \<Rightarrow> ('k \<rightharpoonup> string entry) \<Rightarrow> string option" where
  "redis_get now k ks = lookup now ks k"

definition redis_delete :: "'k \<Rightarrow> ('k \<rightharpoonup> 'v entry) \<Rightarrow> ('k \<rightharpoonup> 'v entry)" where
  "redis_delete k ks = ks(k := None)"

subsection \<open>Errors and dictionaries\<close>

text \<open>
  The service raises \<^verbatim>\<open>KeyError\<close> when it indexes a hash by a field that is missing and
  \<^verbatim>\<open>ValueError\<close> when \<^verbatim>\<open>int\<close> is given text that is no integer. A method that raises
  after it has written to the store leaves its writes behind, so a method returns the
  error or the result, and the store.
\<close>

datatype error = KeyError string | ValueError string

definition getitem :: "hash \<Rightarrow> string \<Rightarrow> error + string" where
  "getitem h k = (case map_of h k of None \<Rightarrow> Inl (KeyError k) | Some v \<Rightarrow> Inr v)"

definition int_of :: "string \<Rightarrow> error + int" where
  "int_of s = (case py_int s of None \<Rightarrow> Inl (ValueError s) | Some i \<Rightarrow> Inr i)"

text \<open>\<^verbatim>\<open>d.get(k) or None\<close>: a missing field and the empty text both give \<^verbatim>\<open>None\<close>.\<close>

definition get_or_none :: "hash \<Rightarrow> string \<Rightarrow> string option" where
  "get_or_none h k =
     (case map_of h k of None \<Rightarrow> None | Some v \<Rightarrow> if v = [] then None else Some v)"

text \<open>A value of the dictionary that \<^verbatim>\<open>check_in\<close> builds is an integer or text; the
  client writes an integer as its decimal text.\<close>

datatype pyval = PInt int | PStr string

fun encode :: "pyval \<Rightarrow> string" where
  "encode (PInt i) = py_str i"
| "encode (PStr s) = s"

record token_data =
  td_token_number :: int
  td_patient_id :: int
  td_patient_name :: string
  td_appointment_id :: pyval
  td_status :: string
  td_checkin_time :: string
  td_called_time :: string
  td_completed_time :: string
  td_is_walk_in :: string
  td_chief_complaint :: string

definition mapping_of :: "token_data \<Rightarrow> (string \<times> string) list" where
  "mapping_of td =
     [(''token_number'', py_str (td_token_number td)),
      (''patient_id'', py_str (td_patient_id td)),
      (''patient_name'', td_patient_name td),
      (''appointment_id'', encode (td_appointment_id td)),
      (''status'', td_status td),
      (''checkin_time'', td_checkin_time td),
      (''called_time'', td_called_time td),
      (''completed_time'', td_completed_time td),
      (''is_walk_in'', td_is_walk_in td),
      (''chief_complaint'', td_chief_complaint td)]"

text \<open>The dictionary that \<^verbatim>\<open>update_status\<close> returns, and the one of
  \<^verbatim>\<open>get_today_queue\<close>, which has the chief complaint as well.\<close>

record token_view =
  token_number :: int
  patient_id :: int
  patient_name :: string
  appointment_id :: "int option"
  status :: string
  checkin_time :: string
  called_time :: "string option"
  completed_time :: "string option"
  is_walk_in :: bool

record token = token_view +
  chief_complaint :: "string option"

text \<open>The entries of the dictionary are evaluated in the order written, so the first
  field that fails decides the error.\<close>

definition bind_err :: "error + 'a \<Rightarrow> ('a \<Rightarrow> error + 'b) \<Rightarrow> error + 'b" where
  "bind_err m f = (case m of Inl e \<Rightarrow> Inl e | Inr x \<Rightarrow> f x)"

text \<open>\<^verbatim>\<open>int(d["appointment_id"]) if d.get("appointment_id") else None\<close>\<close>

definition appointment_of :: "hash \<Rightarrow> error + int option" where
  "appointment_of token_data =
     (case get_or_none token_data ''appointment_id'' of
        None \<Rightarrow> Inr None
      | Some a \<Rightarrow> bind_err (int_of a) (\<lambda>i. Inr (Some i)))"

definition token_view_of :: "hash \<Rightarrow> error + token_view" where
  "token_view_of token_data =
     bind_err (getitem token_data ''token_number'') (\<lambda>tn_text.
     bind_err (int_of tn_text) (\<lambda>tn.
     bind_err (getitem token_data ''patient_id'') (\<lambda>pid_text.
     bind_err (int_of pid_text) (\<lambda>pid.
     bind_err (getitem token_data ''patient_name'') (\<lambda>pname.
     bind_err (appointment_of token_data) (\<lambda>appt.
     bind_err (getitem token_data ''status'') (\<lambda>st.
     bind_err (getitem token_data ''checkin_time'') (\<lambda>ct.
       Inr \<lparr>token_number = tn, patient_id = pid, patient_name = pname,
            appointment_id = appt, status = st, checkin_time = ct,
            called_time = get_or_none token_data ''called_time'',
            completed_time = get_or_none token_data ''completed_time'',
            is_walk_in = (map_of token_data ''is_walk_in'' = Some ''True'')\<rparr>))))))))"

definition token_of :: "hash \<Rightarrow> error + token" where
  "token_of token_data =
     (case token_view_of token_data of
        Inl e \<Rightarrow> Inl e
      | Inr v \<Rightarrow>
          Inr \<lparr>token_number = token_number v, patient_id = patient_id v,
               patient_name = patient_name v, appointment_id = appointment_id v,
               status = status v, checkin_time = checkin_time v,
               called_time = called_time v, completed_time = completed_time v,
               is_walk_in = is_walk_in v,
               chief_complaint = get_or_none token_data ''chief_complaint''\<rparr>)"

subsection \<open>The methods of QueueService\<close>

definition get_next_token_number :: "instant \<Rightarrow> date \<Rightarrow> redis \<Rightarrow> int \<times> redis" where
  "get_next_token_number now queue_date r =
     (let (token_number, c1) = redis_incr now queue_date (counter_keys r);
          c2 = redis_expire now queue_date 86400 c1
      in (token_number, r\<lparr>counter_keys := c2\<rparr>))"

text \<open>\<^verbatim>\<open>appointment_id or ""\<close> and \<^verbatim>\<open>chief_complaint or ""\<close>: \<^verbatim>\<open>None\<close>, the number 0
  and the empty text all give the empty text.\<close>

definition appointment_or_empty :: "int option \<Rightarrow> pyval" where
  "appointment_or_empty a =
     (case a of None \<Rightarrow> PStr [] | Some i \<Rightarrow> if i = 0 then PStr [] else PInt i)"

definition complaint_or_empty :: "string option \<Rightarrow> string" where
  "complaint_or_empty c = (case c of None \<Rightarrow> [] | Some s \<Rightarrow> s)"

definition check_in ::
  "instant \<Rightarrow> date \<Rightarrow> int \<Rightarrow> string \<Rightarrow> int option \<Rightarrow> bool \<Rightarrow> string option \<Rightarrow> redis
     \<Rightarrow> token_data \<times> redis" where
  "check_in now queue_date pid pname appt walk_in complaint r =
     (let (tn, r1) = get_next_token_number now queue_date r;
          checkin_timestamp = timestamp now;
          token_data =
            \<lparr>td_token_number = tn, td_patient_id = pid, td_patient_name = pname,
             td_appointment_id = appointment_or_empty appt,
             td_status = ''WAITING'', td_checkin_time = isoformat now,
             td_called_time = [], td_completed_time = [],
             td_is_walk_in = py_str_bool walk_in,
             td_chief_complaint = complaint_or_empty complaint\<rparr>;
          token_key = (queue_date, tn);
          r2 = r1\<lparr>token_keys :=
                   redis_hset_mapping now token_key (mapping_of token_data) (token_keys r1)\<rparr>;
          r3 = r2\<lparr>token_keys := redis_expire now token_key 86400 (token_keys r2)\<rparr>;
          r4 = r3\<lparr>queue_keys :=
                   redis_zadd now queue_date (py_str tn) checkin_timestamp (queue_keys r3)\<rparr>;
          r5 = r4\<lparr>queue_keys := redis_expire now queue_date 86400 (queue_keys r4)\<rparr>
      in (token_data, r5))"

text \<open>The loop of \<^verbatim>\<open>get_today_queue\<close> over the members of the sorted set: a member
  whose hash is gone is passed over.\<close>

fun resolve_tokens :: "instant \<Rightarrow> date \<Rightarrow> redis \<Rightarrow> string list \<Rightarrow> error + token list" where
  "resolve_tokens now queue_date r [] = Inr []"
| "resolve_tokens now queue_date r (token_num_str # rest) =
     (case int_of token_num_str of
        Inl e \<Rightarrow> Inl e
      | Inr n \<Rightarrow>
          (let token_data = redis_hgetall now (queue_date, n) (token_keys r) in
           if token_data \<noteq> [] then
             (case token_of token_data of
                Inl e \<Rightarrow> Inl e
              | Inr t \<Rightarrow>
                  (case resolve_tokens now queue_date r rest of
                     Inl e \<Rightarrow> Inl e
                   | Inr ts \<Rightarrow> Inr (t # ts)))
           else resolve_tokens now queue_date r rest))"

definition get_today_queue :: "instant \<Rightarrow> date \<Rightarrow> redis \<Rightarrow> error + token list" where
  "get_today_queue now queue_date r =
     resolve_tokens now queue_date r (redis_zrange now queue_date (queue_keys r))"

text \<open>\<^verbatim>\<open>if current and int(current) == token_number: delete\<close>, the last step of
  \<^verbatim>\<open>update_status\<close> for COMPLETED and NO_SHOW.\<close>

definition clear_if_current :: "instant \<Rightarrow> date \<Rightarrow> int \<Rightarrow> redis \<Rightarrow> error option \<times> redis" where
  "clear_if_current now queue_date tn r =
     (case redis_get now queue_date (current_keys r) of
        None \<Rightarrow> (None, r)
      | Some current \<Rightarrow>
          if current = [] then (None, r)
          else (case py_int current of
                  None \<Rightarrow> (Some (ValueError current), r)
                | Some c \<Rightarrow>
                    if c = tn
                    then (None, r\<lparr>current_keys := redis_delete queue_date (current_keys r)\<rparr>)
                    else (None, r)))"

definition update_status ::
  "instant \<Rightarrow> date \<Rightarrow> int \<Rightarrow> string \<Rightarrow> redis \<Rightarrow> (error + token_view option) \<times> redis" where
  "update_status now queue_date tn new_status r =
     (let token_key = (queue_date, tn) in
      if \<not> redis_exists now token_key (token_keys r) then (Inr None, r)
      else
        let r1 = r\<lparr>token_keys := redis_hset now token_key ''status'' new_status (token_keys r)\<rparr>;
            now_text = isoformat now;
            (err, r2) =
              (if new_status = ''WITH_DOCTOR'' then
                 let ra = r1\<lparr>token_keys :=
                            redis_hset now token_key ''called_time'' now_text (token_keys r1)\<rparr>
                 in (None, ra\<lparr>current_keys :=
                            redis_set_ex now queue_date (py_str tn) 86400 (current_keys ra)\<rparr>)
               else if new_status \<in> set [''COMPLETED'', ''NO_SHOW''] then
                 let ra = r1\<lparr>token_keys :=
                            redis_hset now token_key ''completed_time'' now_text (token_keys r1)\<rparr>
                 in clear_if_current now queue_date tn ra
               else (None, r1))
        in (case err of
              Some e \<Rightarrow> (Inl e, r2)
            | None \<Rightarrow>
                (case token_view_of (redis_hgetall now token_key (token_keys r2)) of
                   Inl e \<Rightarrow> (Inl e, r2)
                 | Inr v \<Rightarrow> (Inr (Some v), r2))))"

definition get_current_serving :: "instant \<Rightarrow> date \<Rightarrow> redis \<Rightarrow> error + int option" where
  "get_current_serving now queue_date r =
     (case redis_get now queue_date (current_keys r) of
        None \<Rightarrow> Inr None
      | Some current \<Rightarrow>
          if current = [] then Inr None
          else (case int_of current of Inl e \<Rightarrow> Inl e | Inr c \<Rightarrow> Inr (Some c)))"

fun first_waiting :: "token list \<Rightarrow> token option" where
  "first_waiting [] = None"
| "first_waiting (t # ts) = (if status t = ''WAITING'' then Some t else first_waiting ts)"

definition call_next_patient ::
  "instant \<Rightarrow> date \<Rightarrow> redis \<Rightarrow> (error + token_view option) \<times> redis" where
  "call_next_patient now queue_date r =
     (case get_today_queue now queue_date r of
        Inl e \<Rightarrow> (Inl e, r)
      | Inr tokens \<Rightarrow>
          (case first_waiting tokens of
             None \<Rightarrow> (Inr None, r)
           | Some t \<Rightarrow> update_status now queue_date (token_number t) ''WITH_DOCTOR'' r))"

definition skip_patient ::
  "instant \<Rightarrow> date \<Rightarrow> int \<Rightarrow> redis \<Rightarrow> (error + token_view option) \<times> redis" where
  "skip_patient now queue_date tn r = update_status now queue_date tn ''SKIPPED'' r"

definition recall_patient ::
  "instant \<Rightarrow> date \<Rightarrow> int \<Rightarrow> redis \<Rightarrow> (error + token_view option) \<times> redis" where
  "recall_patient now queue_date tn r = update_status now queue_date tn ''WAITING'' r"

record summary =
  date :: string
  total_tokens :: nat
  checked_in :: nat
  waiting :: nat
  with_doctor :: nat
  completed :: nat
  skipped :: nat
  no_show :: nat
  current_token :: "int option"
  tokens :: "token list"

fun count_statuses :: "token list \<Rightarrow> summary \<Rightarrow> summary" where
  "count_statuses [] sm = sm"
| "count_statuses (t # ts) sm =
     count_statuses ts
       (if status t = ''WAITING'' then sm\<lparr>waiting := waiting sm + 1\<rparr>
        else if status t = ''WITH_DOCTOR'' then sm\<lparr>with_doctor := with_doctor sm + 1\<rparr>
        else if status t = ''COMPLETED'' then sm\<lparr>completed := completed sm + 1\<rparr>
        else if status t = ''SKIPPED'' then sm\<lparr>skipped := skipped sm + 1\<rparr>
        else if status t = ''NO_SHOW'' then sm\<lparr>no_show := no_show sm + 1\<rparr>
        else sm)"

definition get_queue_summary :: "instant \<Rightarrow> date \<Rightarrow> redis \<Rightarrow> error + summary" where
  "get_queue_summary now queue_date r =
     (case get_today_queue now queue_date r of
        Inl e \<Rightarrow> Inl e
      | Inr toks \<Rightarrow>
          (case get_current_serving now queue_date r of
             Inl e \<Rightarrow> Inl e
           | Inr cur \<Rightarrow>
               (let sm0 = \<lparr>date = date_isoformat queue_date, total_tokens = length toks,
                           checked_in = 0, waiting = 0, with_doctor = 0, completed = 0,
                           skipped = 0, no_show = 0, current_token = cur, tokens = toks\<rparr>;
                    sm1 = count_statuses toks sm0
                in Inr (sm1\<lparr>checked_in := waiting sm1 + with_doctor sm1\<rparr>))))"

subsection \<open>Runs of the service\<close>

text \<open>
  The calls that change the store, each with the date it is made for. A state is
  reachable when calls made one after the other, at any instants, lead to it from the
  empty store.
\<close>

datatype call =
    CheckIn date int string "int option" bool "string option"
  | UpdateStatus date int string
  | CallNext date
  | Skip date int
  | Recall date int

fun step :: "instant \<Rightarrow> call \<Rightarrow> redis \<Rightarrow> redis" where
  "step now (CheckIn d pid pname appt walk_in complaint) r =
     snd (check_in now d pid pname appt walk_in complaint r)"
| "step now (UpdateStatus d tn st) r = snd (update_status now d tn st r)"
| "step now (CallNext d) r = snd (call_next_patient now d r)"
| "step now (Skip d tn) r = snd (skip_patient now d tn r)"
| "step now (Recall d tn) r = snd (recall_patient now d tn r)"

fun run :: "(instant \<times> call) list \<Rightarrow> redis \<Rightarrow> redis" where
  "run [] r = r"
| "run ((now, c) # cs) r = run cs (step now c r)"

inductive reachable :: "redis \<Rightarrow> bool" where
  start: "reachable empty_redis"
| after: "reachable r \<Longrightarrow> reachable (step now c r)"

subsection \<open>Well-formed stores, successive check-ins, examples\<close>

text \<open>
  What the service keeps true of the store: a token's hash holds the fields that the
  service indexes, with integers where it parses integers, under the number of its key;
  a member of the sorted set is the decimal text of a token number, scored with the
  instant that the token's \<open>checkin_time\<close> field renders; the current-serving entry is
  the decimal text of a token number.
\<close>

definition wf_hash :: "int \<Rightarrow> hash \<Rightarrow> bool" where
  "wf_hash n h \<longleftrightarrow>
     map_of h ''token_number'' = Some (py_str n) \<and>
     (\<exists>p. map_of h ''patient_id'' = Some (py_str p)) \<and>
     (\<exists>s. map_of h ''patient_name'' = Some s) \<and>
     (map_of h ''appointment_id'' = Some [] \<or>
        (\<exists>a. map_of h ''appointment_id'' = Some (py_str a))) \<and>
     (\<exists>s. map_of h ''status'' = Some s) \<and>
     (\<exists>t. map_of h ''checkin_time'' = Some (isoformat t))"

definition wf_member :: "redis \<Rightarrow> date \<Rightarrow> string \<times> nat \<Rightarrow> bool" where
  "wf_member r d p \<longleftrightarrow>
     (\<exists>n. fst p = py_str n \<and>
        (\<forall>h e. token_keys r (d, n) = Some (h, e) \<longrightarrow>
           map_of h ''checkin_time'' = Some (isoformat (snd p))))"

definition wf_redis :: "redis \<Rightarrow> bool" where
  "wf_redis r \<longleftrightarrow>
     (\<forall>d n h e. token_keys r (d, n) = Some (h, e) \<longrightarrow> wf_hash n h) \<and>
     (\<forall>d z e. queue_keys r d = Some (z, e) \<longrightarrow>
        distinct (map fst z) \<and> (\<forall>p \<in> set z. wf_member r d p)) \<and>
     (\<forall>d c e. current_keys r d = Some (c, e) \<longrightarrow> (\<exists>n. c = py_str n))"

text \<open>Check-ins made one after the other for one date, and the token numbers they
  return; instants of which each is less than 24 hours after the one before.\<close>

type_synonym check_in_args = "int \<times> string \<times> int option \<times> bool \<times> string option"

fun check_in_many :: "date \<Rightarrow> (instant \<times> check_in_args) list \<Rightarrow> redis \<Rightarrow> int list" where
  "check_in_many d [] r = []"
| "check_in_many d ((now, pid, pname, appt, walk_in, complaint) # rest) r =
     td_token_number (fst (check_in now d pid pname appt walk_in complaint r)) #
     check_in_many d rest (snd (check_in now d pid pname appt walk_in complaint r))"

fun within_day :: "instant list \<Rightarrow> bool" where
  "within_day [] = True"
| "within_day [t] = True"
| "within_day (t # t' # ts) = (t \<le> t' \<and> t' < t + seconds 86400 \<and> within_day (t' # ts))"

text \<open>The calls that go through \<^verbatim>\<open>update_status\<close>: every call but a check-in.\<close>

fun status_call :: "call \<Rightarrow> bool" where
  "status_call (CheckIn d pid pname appt walk_in complaint) = False"
| "status_call c = True"

definition mutable_fields :: "string set" where
  "mutable_fields = {''status'', ''called_time'', ''completed_time''}"

definition a_date :: date where
  "a_date = \<lparr>year = 2024, month = 3, day = 5\<rparr>"

definition walk_in_call :: call where
  "walk_in_call = CheckIn a_date 101 ''Asha'' None True None"

text \<open>The fields of a token's hash after \<^verbatim>\<open>update_status\<close> has written to it.\<close>

definition written_hash :: "instant \<Rightarrow> string \<Rightarrow> hash \<Rightarrow> hash" where
  "written_hash now st h =
     (if st = ''WITH_DOCTOR''
      then AList.update ''called_time'' (isoformat now) (AList.update ''status'' st h)
      else if st = ''COMPLETED'' \<or> st = ''NO_SHOW''
      then AList.update ''completed_time'' (isoformat now) (AList.update ''status'' st h)
      else AList.update ''status'' st h)"

text \<open>Two stores that differ at most in the status, the called time and the completed
  time of their tokens.\<close>

definition same_but_status :: "redis \<Rightarrow> redis \<Rightarrow> bool" where
  "same_but_status r r' \<longleftrightarrow>
     queue_keys r' = queue_keys r \<and> counter_keys r' = counter_keys r \<and>
     (\<forall>k. rel_option
        (\<lambda>x' x. snd x' = snd x \<and> (\<forall>f. f \<notin> mutable_fields \<longrightarrow> map_of (fst x') f = map_of (fst x) f))
        (token_keys r' k) (token_keys r k))"

section \<open>Properties\<close>

subsection \<open>Integers as text\<close>

lemma of_char_digit_char: "n < 10 \<Longrightarrow> (of_char (digit_char n) :: nat) = 48 + n"
proof -
  assume "n < 10"
  then have "n \<in> {0, 1, 2, 3, 4, 5, 6, 7, 8, 9}" by auto
  then show ?thesis by (auto simp: digit_char_def)
qed

lemma is_digit_digit_char: "n < 10 \<Longrightarrow> is_digit (digit_char n)"
  by (simp add: is_digit_def of_char_digit_char)

lemma digit_val_digit_char: "n < 10 \<Longrightarrow> digit_val (digit_char n) = n"
  by (simp add: digit_val_def of_char_digit_char)

lemma str_nat_nonempty: "str_nat n \<noteq> []"
  by (subst str_nat.simps) simp

lemma str_nat_digits: "list_all is_digit (str_nat n)"
proof (induction n rule: str_nat.induct)
  case (1 n)
  show ?case
  proof (cases "n < 10")
    case True
    then show ?thesis by (subst str_nat.simps) (simp add: is_digit_digit_char)
  next
    case False
    with 1 show ?thesis by (subst str_nat.simps) (simp add: is_digit_digit_char)
  qed
qed

lemma str_nat_value: "foldl (\<lambda>a c. 10 * a + digit_val c) 0 (str_nat n) = n"
proof (induction n rule: str_nat.induct)
  case (1 n)
  show ?case
  proof (cases "n < 10")
    case True
    then show ?thesis by (subst str_nat.simps) (simp add: digit_val_digit_char)
  next
    case False
    with 1 show ?thesis by (subst str_nat.simps) (simp add: digit_val_digit_char)
  qed
qed

lemma parse_nat_str_nat: "parse_nat (str_nat n) = Some n"
  by (simp add: parse_nat_def str_nat_nonempty str_nat_digits str_nat_value)

lemma is_digit_not_sign: "is_digit c \<Longrightarrow> c \<noteq> CHR ''-'' \<and> c \<noteq> CHR ''+''"
  by (auto simp: is_digit_def)

lemma str_nat_hd: "\<exists>c r. str_nat n = c # r \<and> c \<noteq> CHR ''-'' \<and> c \<noteq> CHR ''+''"
proof -
  obtain c r where cr: "str_nat n = c # r"
    using str_nat_nonempty [of n] by (cases "str_nat n") auto
  with str_nat_digits [of n] have "is_digit c" by simp
  with cr show ?thesis by (simp add: is_digit_not_sign)
qed

lemma py_int_str_nat: "py_int (str_nat n) = Some (int n)"
proof -
  obtain c r where cr: "str_nat n = c # r" "c \<noteq> CHR ''-''" "c \<noteq> CHR ''+''"
    using str_nat_hd by blast
  have "py_int (c # r) = map_option int (parse_nat (c # r))"
    using cr(2,3) by (simp add: py_int_def)
  then show ?thesis using cr(1) parse_nat_str_nat [of n] by simp
qed

lemma py_int_py_str [simp]: "py_int (py_str i) = Some i"
proof (cases "i < 0")
  case True
  then show ?thesis by (simp add: py_str_def py_int_def parse_nat_str_nat)
next
  case False
  then show ?thesis by (simp add: py_str_def py_int_str_nat)
qed

lemma py_str_inject [simp]: "py_str i = py_str j \<longleftrightarrow> i = j"
  by (metis py_int_py_str option.inject)

lemma py_str_nonempty [simp]: "py_str i \<noteq> []"
  by (simp add: py_str_def str_nat_nonempty)

lemma isoformat_nonempty [simp]: "isoformat t \<noteq> []"
  by (simp add: isoformat_def str_nat_nonempty)

lemma int_of_py_str [simp]: "int_of (py_str i) = Inr i"
  by (simp add: int_of_def)

text \<open>Evaluating the decimal text of a numeral.\<close>

lemma str_nat_numeral:
  "str_nat (numeral k) =
     (if (numeral k :: nat) < 10 then [digit_char (numeral k)]
      else str_nat (numeral k div 10) @ [digit_char (numeral k mod 10)])"
  by (rule str_nat.simps)

lemma str_nat_0: "str_nat 0 = ''0''"
  by (subst str_nat.simps) (simp add: digit_char_def)

lemma str_nat_1: "str_nat (Suc 0) = ''1''"
  by (subst str_nat.simps) (simp add: digit_char_def)

lemmas str_eval = str_nat_numeral str_nat_0 str_nat_1 digit_char_def py_str_def isoformat_def

subsection \<open>The store\<close>

lemma live_ttl_Some [simp]: "live_ttl now (Some t) \<longleftrightarrow> now < t"
  by (simp add: live_ttl_def)

lemma live_keep_ttl [simp]: "live_ttl now (keep_ttl now ks k)"
  by (simp add: keep_ttl_def live_ttl_def split: option.splits prod.splits)

lemma lookup_empty [simp]: "lookup now (\<lambda>x. None) k = None"
  by (simp add: lookup_def)

lemma lookup_upd_same [simp]:
  "lookup now (ks(k \<mapsto> (v, e))) k = (if live_ttl now e then Some v else None)"
  by (simp add: lookup_def)

lemma lookup_upd_other [simp]: "k' \<noteq> k \<Longrightarrow> lookup now (ks(k \<mapsto> x)) k' = lookup now ks k'"
  by (simp add: lookup_def)

lemma lookup_Some_iff:
  "lookup now ks k = Some v \<longleftrightarrow> (\<exists>e. ks k = Some (v, e) \<and> live_ttl now e)"
  by (auto simp: lookup_def split: option.splits)

lemma keep_ttl_live: "ks k = Some (v, e) \<Longrightarrow> live_ttl now e \<Longrightarrow> keep_ttl now ks k = e"
  by (simp add: keep_ttl_def)

lemma expire_after_write [simp]:
  "redis_expire now k secs (ks(k \<mapsto> (v, keep_ttl now ks k))) =
     ks(k \<mapsto> (v, Some (now + seconds secs)))"
  by (simp add: redis_expire_def)

subsection \<open>The token sequence counter\<close>

lemma next_number_value:
  "fst (get_next_token_number now d r) =
     (case lookup now (counter_keys r) d of None \<Rightarrow> 1 | Some v \<Rightarrow> v + 1)"
  by (simp add: get_next_token_number_def redis_incr_def Let_def split: option.splits)

lemma next_number_store:
  "snd (get_next_token_number now d r) =
     r\<lparr>counter_keys :=
          (counter_keys r)(d \<mapsto> (fst (get_next_token_number now d r), Some (now + seconds 86400)))\<rparr>"
  by (simp add: get_next_token_number_def redis_incr_def Let_def)

subsection \<open>What a check-in writes\<close>

lemma check_in_data:
  "fst (check_in now d pid pname appt walk_in complaint r) =
     \<lparr>td_token_number = fst (get_next_token_number now d r), td_patient_id = pid,
      td_patient_name = pname, td_appointment_id = appointment_or_empty appt,
      td_status = ''WAITING'', td_checkin_time = isoformat now,
      td_called_time = [], td_completed_time = [],
      td_is_walk_in = py_str_bool walk_in,
      td_chief_complaint = complaint_or_empty complaint\<rparr>"
  by (simp add: check_in_def Let_def case_prod_beta)

lemma check_in_store:
  "snd (check_in now d pid pname appt walk_in complaint r) =
     r\<lparr>counter_keys :=
          (counter_keys r)(d \<mapsto> (fst (get_next_token_number now d r), Some (now + seconds 86400))),
        token_keys :=
          (token_keys r)((d, fst (get_next_token_number now d r)) \<mapsto>
            (fold (\<lambda>(f, v). AList.update f v)
               (mapping_of (fst (check_in now d pid pname appt walk_in complaint r)))
               (redis_hgetall now (d, fst (get_next_token_number now d r)) (token_keys r)),
             Some (now + seconds 86400))),
        queue_keys :=
          (queue_keys r)(d \<mapsto>
            (AList.update (py_str (fst (get_next_token_number now d r))) (timestamp now)
               (case lookup now (queue_keys r) d of None \<Rightarrow> [] | Some z \<Rightarrow> z),
             Some (now + seconds 86400)))\<rparr>"
  by (simp add: check_in_def Let_def case_prod_beta next_number_store redis_hset_mapping_def
      redis_zadd_def)

subsection \<open>The lifetime of the counter\<close>

text \<open>
  Claim C9, as the code has it. \<^verbatim>\<open>_get_next_token_number\<close> calls \<^verbatim>\<open>EXPIRE\<close> after
  every increment, so the counter of a date lives for 24 hours after the latest call,
  not after the first: after a call at the instant \<open>now\<close> the counter holds the number
  just returned at every instant before \<open>now + 24 h\<close> and is absent from then on,
  whatever was in the store before.
\<close>

theorem C9_counter_lives_a_day_after_latest_call:
  "lookup t (counter_keys (snd (get_next_token_number now d r))) d =
     (if t < now + seconds 86400 then Some (fst (get_next_token_number now d r)) else None)"
  by (simp add: next_number_store)

text \<open>
  Claim C9 as stated fails: with calls at 0 s and at 10 s, the counter is still there
  24 hours after the first call, and the check-in made at that instant gets number 3.
\<close>

theorem C9_counterexample:
  "lookup (seconds 86400)
     (counter_keys (run [(0, walk_in_call), (seconds 10, walk_in_call)] empty_redis)) a_date
     = Some 2 \<and>
   check_in_many a_date [(seconds 86400, 103, ''Mira'', None, True, None)]
     (run [(0, walk_in_call), (seconds 10, walk_in_call)] empty_redis) = [3]"
  by (simp add: walk_in_call_def check_in_data check_in_store next_number_value
      empty_redis_def seconds_def)

subsection \<open>What a status update writes\<close>

lemma keep_ttl_upd_same [simp]:
  "keep_ttl now (ks(k \<mapsto> (v, e))) k = (if live_ttl now e then e else None)"
  by (simp add: keep_ttl_def)

lemma hgetall_upd_same [simp]:
  "redis_hgetall now k (ks(k \<mapsto> (h, e))) = (if live_ttl now e then h else [])"
  by (simp add: redis_hgetall_def)

lemma hgetall_upd_other [simp]:
  "k' \<noteq> k \<Longrightarrow> redis_hgetall now k' (ks(k \<mapsto> x)) = redis_hgetall now k' ks"
  by (simp add: redis_hgetall_def)

lemma hgetall_live: "ks k = Some (h, e) \<Longrightarrow> live_ttl now e \<Longrightarrow> redis_hgetall now k ks = h"
  by (simp add: redis_hgetall_def lookup_def)

lemma hset_live:
  "ks k = Some (h, e) \<Longrightarrow> live_ttl now e \<Longrightarrow>
   redis_hset now k f v ks = ks(k \<mapsto> (AList.update f v h, e))"
  by (simp add: redis_hset_def redis_hset_mapping_def hgetall_live keep_ttl_live)

lemma update_status_absent:
  "lookup now (token_keys r) (d, tn) = None \<Longrightarrow> update_status now d tn st r = (Inr None, r)"
  by (simp add: update_status_def redis_exists_def)

lemma clear_if_current_tokens [simp]:
  "token_keys (snd (clear_if_current now d tn r)) = token_keys r"
  "queue_keys (snd (clear_if_current now d tn r)) = queue_keys r"
  "counter_keys (snd (clear_if_current now d tn r)) = counter_keys r"
  by (simp_all add: clear_if_current_def split: option.splits)

lemma update_status_tokens:
  assumes "token_keys r (d, tn) = Some (h, e)" and "live_ttl now e"
  shows "token_keys (snd (update_status now d tn st r)) =
           (token_keys r)((d, tn) \<mapsto> (written_hash now st h, e))"
proof -
  have ex: "redis_exists now (d, tn) (token_keys r)"
    using assms by (simp add: redis_exists_def lookup_def)
  show ?thesis
    using assms ex
    by (simp add: update_status_def Let_def case_prod_beta hset_live written_hash_def
        split: option.splits sum.splits)
qed

lemma update_status_frame [simp]:
  "queue_keys (snd (update_status now d tn st r)) = queue_keys r"
  "counter_keys (snd (update_status now d tn st r)) = counter_keys r"
  by (simp_all add: update_status_def Let_def case_prod_beta split: option.splits sum.splits)

lemma update_status_current:
  assumes "redis_exists now (d, tn) (token_keys r)"
  shows "current_keys (snd (update_status now d tn st r)) =
     (if st = ''WITH_DOCTOR'' then (current_keys r)(d \<mapsto> (py_str tn, Some (now + seconds 86400)))
      else if st = ''COMPLETED'' \<or> st = ''NO_SHOW''
      then current_keys (snd (clear_if_current now d tn r))
      else current_keys r)"
  using assms
  by (simp add: update_status_def Let_def case_prod_beta redis_set_ex_def clear_if_current_def
      redis_get_def split: option.splits sum.splits)

lemma update_status_result:
  assumes "redis_exists now (d, tn) (token_keys r)"
  shows "fst (update_status now d tn st r) \<noteq> Inr None"
  using assms
  by (simp add: update_status_def Let_def case_prod_beta split: option.splits sum.splits)

subsection \<open>A status update of a token that does not exist\<close>

text \<open>
  Claim C4. \<^verbatim>\<open>update_status\<close> returns \<^verbatim>\<open>None\<close> (not found) exactly when the store
  has no hash under the token's key at that instant, and in that case it returns the
  store as it was: token hashes, sorted set, counter and current-serving entry.
\<close>

theorem C4_update_status_not_found:
  "(fst (update_status now d tn st r) = Inr None \<longleftrightarrow> \<not> redis_exists now (d, tn) (token_keys r)) \<and>
   (\<not> redis_exists now (d, tn) (token_keys r) \<longrightarrow> snd (update_status now d tn st r) = r)"
proof (cases "redis_exists now (d, tn) (token_keys r)")
  case True
  then show ?thesis by (simp add: update_status_result)
next
  case False
  then have "update_status now d tn st r = (Inr None, r)"
    by (simp add: update_status_absent redis_exists_def)
  with False show ?thesis by simp
qed

text \<open>At a store with token 1 only: token 2 is not found and nothing changes, token 1 is
  found.\<close>

theorem C4_witness:
  "\<not> redis_exists 7 (a_date, 2) (token_keys (run [(5, walk_in_call)] empty_redis)) \<and>
   update_status 7 a_date 2 ''COMPLETED'' (run [(5, walk_in_call)] empty_redis) =
     (Inr None, run [(5, walk_in_call)] empty_redis) \<and>
   redis_exists 7 (a_date, 1) (token_keys (run [(5, walk_in_call)] empty_redis)) \<and>
   fst (update_status 7 a_date 1 ''COMPLETED'' (run [(5, walk_in_call)] empty_redis)) \<noteq> Inr None"
proof -
  let ?r = "run [(5, walk_in_call)] empty_redis"
  have absent: "\<not> redis_exists 7 (a_date, 2) (token_keys ?r)"
    by (simp add: walk_in_call_def check_in_store next_number_value empty_redis_def
        redis_exists_def)
  have present: "redis_exists 7 (a_date, 1) (token_keys ?r)"
    by (simp add: walk_in_call_def check_in_store next_number_value empty_redis_def
        redis_exists_def seconds_def)
  from absent present
    C4_update_status_not_found [of 7 a_date 2 "''COMPLETED''" ?r]
    C4_update_status_not_found [of 7 a_date 1 "''COMPLETED''" ?r]
  show ?thesis by (simp add: prod_eq_iff)
qed

end
